theory Spec2Isabelle
  imports Main
begin

section \<open>Python values and errors\<close>

text \<open>
  The simulator is Python. The values that travel through keyword arguments, log
  records and parameter snapshots are modelled by one datatype: \<open>PyDict\<close> is a
  dictionary with string keys (an association list, first binding wins), \<open>PyObj\<close>
  is an object given by its attributes. A \<open>bool\<close> is an \<open>int\<close> for
  \<^verbatim>\<open>isinstance\<close>, as in Python.
\<close>

datatype pyval =
    PyNone
  | PyBool bool
  | PyInt int
  | PyStr string
  | PyList "pyval list"
  | PyDict "(string \<times> pyval) list"
  | PyObj "(string \<times> pyval) list"

text \<open>Every exception of the source is a value; the string is the key, attribute or message.\<close>

datatype error =
    TypeError string
  | KeyError string
  | AttributeError string
  | IndexError string
  | ValueError string
  | OtherError string

definition bind :: "error + 'a \<Rightarrow> ('a \<Rightarrow> error + 'b) \<Rightarrow> error + 'b" where
  "bind m f = (case m of Inl e \<Rightarrow> Inl e | Inr x \<Rightarrow> f x)"

text \<open>A list comprehension whose body may raise: the first exception ends it.\<close>

fun collect :: "('a \<Rightarrow> error + 'b) \<Rightarrow> 'a list \<Rightarrow> error + 'b list" where
  "collect f [] = Inr []"
| "collect f (x # xs) = bind (f x) (\<lambda>y. bind (collect f xs) (\<lambda>ys. Inr (y # ys)))"

text \<open>\<^verbatim>\<open>isinstance(v, int)\<close>\<close>

fun isinstance_int :: "pyval \<Rightarrow> bool" where
  "isinstance_int (PyInt n) = True"
| "isinstance_int (PyBool b) = True"
| "isinstance_int v = False"

text \<open>
  \<^verbatim>\<open>for v in val\<close>: a list yields its elements and a string its characters; the
  other values are not iterable and Python raises \<^verbatim>\<open>TypeError\<close>. (Iterating a
  dictionary yields its keys; objects are taken to define no \<^verbatim>\<open>__iter__\<close>.)
\<close>

fun py_iter :: "pyval \<Rightarrow> error + pyval list" where
  "py_iter (PyList vs) = Inr vs"
| "py_iter (PyStr s) = Inr (map (\<lambda>c. PyStr [c]) s)"
| "py_iter (PyDict d) = Inr (map (\<lambda>kv. PyStr (fst kv)) d)"
| "py_iter (PyInt n) = Inl (TypeError ''int object is not iterable'')"
| "py_iter (PyBool b) = Inl (TypeError ''bool object is not iterable'')"
| "py_iter PyNone = Inl (TypeError ''NoneType object is not iterable'')"
| "py_iter (PyObj a) = Inl (TypeError ''object is not iterable'')"

text \<open>\<^verbatim>\<open>v.name\<close>\<close>

fun getattr :: "pyval \<Rightarrow> string \<Rightarrow> error + pyval" where
  "getattr (PyObj attrs) name =
     (case map_of attrs name of None \<Rightarrow> Inl (AttributeError name) | Some v \<Rightarrow> Inr v)"
| "getattr v name = Inl (AttributeError name)"

section \<open>Sweep-parameter parsing (\<^verbatim>\<open>crvusdsim/sim/__init__.py\<close>)\<close>

text \<open>The three band strategies \<^verbatim>\<open>_parse_arguments\<close> chooses from; it only passes them on.\<close>

datatype bands_strategy =
    init_y_bands_strategy
  | user_loans_strategy
  | one_user_bands_strategy

definition recognized_modes :: "string set" where
  "recognized_modes = {''pool'', ''controller'', ''N''}"

text \<open>The \<^verbatim>\<open>if\<close>/\<^verbatim>\<open>elif\<close> chain: it has no \<^verbatim>\<open>else\<close>, the initial values stay.\<close>

definition mode_input_args :: "string \<Rightarrow> string list \<times> bands_strategy option" where
  "mode_input_args sim_mode =
     (if sim_mode = ''pool'' then ([''A'', ''fee'', ''admin_fee''], Some init_y_bands_strategy)
      else if sim_mode = ''controller'' then
        ([''loan_discount'', ''liquidation_discount''], Some user_loans_strategy)
      else if sim_mode = ''N'' then ([''N''], Some one_user_bands_strategy)
      else ([], None))"

text \<open>
  The loop over \<^verbatim>\<open>kwargs.items()\<close>, in the order of the call. The generator
  \<^verbatim>\<open>(isinstance(v, int) for v in val)\<close> takes \<^verbatim>\<open>iter(val)\<close> first, so a value that
  is not iterable raises Python's own \<^verbatim>\<open>TypeError\<close> before the \<^verbatim>\<open>else\<close> branch
  with the function's message is reached.
\<close>

fun parse_loop ::
  "string list \<Rightarrow> (string \<times> pyval) list \<Rightarrow> (string \<rightharpoonup> pyval) \<Rightarrow> error + (string \<rightharpoonup> pyval)"
where
  "parse_loop input_args [] variable_params = Inr variable_params"
| "parse_loop input_args ((key, val) # rest) variable_params =
     (if key \<in> set input_args then
        bind (py_iter val) (\<lambda>vs.
          if list_all isinstance_int vs
          then parse_loop input_args rest (variable_params(key \<mapsto> val))
          else Inl (TypeError (''Argument '' @ key @ '' must be an int or iterable of ints'')))
      else parse_loop input_args rest variable_params)"

text \<open>\<^verbatim>\<open>_parse_arguments(pool_metadata, sim_mode, **kwargs)\<close>; \<open>pool_metadata\<close> is not read.\<close>

definition parse_arguments ::
  "'m \<Rightarrow> string \<Rightarrow> (string \<times> pyval) list
     \<Rightarrow> error + ((string \<rightharpoonup> pyval) \<times> bands_strategy option)"
where
  "parse_arguments pool_metadata sim_mode kwargs =
     (case mode_input_args sim_mode of (input_args, strategy) \<Rightarrow>
        bind (parse_loop input_args kwargs Map.empty) (\<lambda>variable_params.
          Inr (variable_params, strategy)))"

section \<open>The state log (\<^verbatim>\<open>crvusdsim/metrics/state_log/state_log.py\<close>)\<close>

text \<open>
  A log record is the dictionary \<^verbatim>\<open>{"state_data": ..., **kwargs}\<close>, a map from keys to
  values. A pandas \<^verbatim>\<open>DataFrame(values, index=times)\<close> is kept as what it is built
  from: its index and its row values, where a row is \<open>None\<close> when the record had
  no such key (pandas fills the cell with NaN). The table of the run's parameters
  is the snapshot itself.
\<close>

type_synonym pydict = "string \<rightharpoonup> pyval"

record frame =
  frame_index :: "pyval list"
  frame_data :: "pyval option list"

datatype table =
    ParamTable pyval
  | SeriesTable frame

type_synonym logs = "string \<rightharpoonup> table"

text \<open>
  A metric object of curvesim: \<open>is_PoolMetric\<close> is \<^verbatim>\<open>isinstance(metric, PoolMetric)\<close>,
  \<open>metric_pool\<close> is what \<^verbatim>\<open>set_pool\<close> stores, and \<open>metric_state\<close> stands for whatever
  else the object holds. \<open>compute\<close> is the method \<^verbatim>\<open>metric.compute(state_logs)\<close>: it
  reads the object and the logs, returns the per-trade series and the summary, and
  may leave the object in another state.
\<close>

record 'pool metric =
  is_PoolMetric :: bool
  metric_pool :: "'pool option"
  metric_state :: pyval
  compute :: "pyval \<Rightarrow> 'pool option \<Rightarrow> logs \<Rightarrow> error + ((frame \<times> frame) \<times> pyval)"

text \<open>
  The readers of \<^verbatim>\<open>pool_parameters.py\<close>, \<^verbatim>\<open>pool_state.py\<close> and
  \<^verbatim>\<open>controller_state.py\<close> are not among the source files; the log is modelled over
  any such readers. The state readers may raise, and the exception then leaves
  \<^verbatim>\<open>update\<close>.
\<close>

record ('pool, 'ctrl, 'prm) readers =
  get_pool_parameters :: "'pool \<Rightarrow> pyval"
  get_controller_parameters :: "'ctrl \<Rightarrow> pyval"
  get_N_parameters :: "'prm \<Rightarrow> pyval"
  get_pool_state :: "'pool \<Rightarrow> error + pyval"
  get_controller_state :: "'pool \<Rightarrow> 'ctrl \<Rightarrow> error + pyval"

text \<open>The slots of \<^verbatim>\<open>StateLog\<close>; a slot that was never assigned is \<open>None\<close>.\<close>

record ('pool, 'ctrl) StateLog =
  metrics :: "'pool metric list"
  pool :: 'pool
  controller :: 'ctrl
  state_per_run :: "pyval option"
  state_per_trade :: "pydict list"
  sim_mode :: string

definition prepare_metrics :: "'pool metric list \<Rightarrow> 'pool \<Rightarrow> 'pool metric list" where
  "prepare_metrics ms p =
     map (\<lambda>m. if is_PoolMetric m then m\<lparr>metric_pool := Some p\<rparr> else m) ms"

definition StateLog_init ::
  "('pool, 'ctrl, 'prm) readers \<Rightarrow> 'pool \<Rightarrow> 'ctrl \<Rightarrow> 'pool metric list \<Rightarrow> 'prm \<Rightarrow> string
     \<Rightarrow> ('pool, 'ctrl) StateLog"
where
  "StateLog_init rd p c ms parameters mode =
     \<lparr>metrics = prepare_metrics ms p,
      pool = p,
      controller = c,
      state_per_run =
        (if mode = ''pool'' then Some (get_pool_parameters rd p)
         else if mode = ''controller'' then Some (get_controller_parameters rd c)
         else if mode = ''N'' then Some (get_N_parameters rd parameters)
         else None),
      state_per_trade = [],
      sim_mode = mode\<rparr>"

text \<open>
  The record \<^verbatim>\<open>{"state_data": state, **kwargs}\<close>: a keyword named
  \<^verbatim>\<open>state_data\<close> replaces the state.
\<close>

definition log_record :: "pyval \<Rightarrow> pydict \<Rightarrow> pydict" where
  "log_record state kwargs = [''state_data'' \<mapsto> state] ++ kwargs"

text \<open>\<^verbatim>\<open>self.state_per_trade.append(...)\<close>\<close>

definition append_record ::
  "('pool, 'ctrl) StateLog \<Rightarrow> pyval \<Rightarrow> pydict \<Rightarrow> ('pool, 'ctrl) StateLog"
where
  "append_record log state kwargs =
     log\<lparr>state_per_trade := state_per_trade log @ [log_record state kwargs]\<rparr>"

text \<open>
  \<^verbatim>\<open>update\<close> is two statements: the \<^verbatim>\<open>if\<close>/\<^verbatim>\<open>elif\<close> for the modes pool and
  controller, then a separate \<^verbatim>\<open>if\<close> for the mode N. None has an \<^verbatim>\<open>else\<close>.
\<close>

definition update ::
  "('pool, 'ctrl, 'prm) readers \<Rightarrow> ('pool, 'ctrl) StateLog \<Rightarrow> pydict
     \<Rightarrow> error + ('pool, 'ctrl) StateLog"
where
  "update rd log kwargs =
     bind
       (if sim_mode log = ''pool'' then
          bind (get_pool_state rd (pool log)) (\<lambda>s. Inr (append_record log s kwargs))
        else if sim_mode log = ''controller'' then
          bind (get_controller_state rd (pool log) (controller log))
            (\<lambda>s. Inr (append_record log s kwargs))
        else Inr log)
       (\<lambda>log1.
          if sim_mode log1 = ''N'' then
            bind (get_controller_state rd (pool log1) (controller log1))
              (\<lambda>s. Inr (append_record log1 s kwargs))
          else Inr log1)"

text \<open>
  A run of \<^verbatim>\<open>update\<close> calls, stopped by the first exception. The log only refers
  to the pool and the controller, and the trade loop changes them between two
  calls: a step of the run gives the pool and the controller as they are when
  \<^verbatim>\<open>update\<close> is called, and the keyword arguments of the call.
\<close>

fun run_updates ::
  "('pool, 'ctrl, 'prm) readers \<Rightarrow> ('pool, 'ctrl) StateLog \<Rightarrow> ('pool \<times> 'ctrl \<times> pydict) list
     \<Rightarrow> error + ('pool, 'ctrl) StateLog"
where
  "run_updates rd log [] = Inr log"
| "run_updates rd log ((p, c, kwargs) # rest) =
     bind (update rd (log\<lparr>pool := p, controller := c\<rparr>) kwargs)
       (\<lambda>log1. run_updates rd log1 rest)"

text \<open>\<^verbatim>\<open>state["price_sample"].timestamp\<close>\<close>

definition sample_timestamp :: "pydict \<Rightarrow> error + pyval" where
  "sample_timestamp state =
     (case state ''price_sample'' of
        None \<Rightarrow> Inl (KeyError ''price_sample'')
      | Some v \<Rightarrow> getattr v ''timestamp'')"

text \<open>
  \<^verbatim>\<open>get_logs\<close>. The columns of \<^verbatim>\<open>DataFrame(self.state_per_trade)\<close> are the keys that
  occur in some record; the column of a key lists every record's value for it.
  The parameter table is built last, in the returned dictionary, where reading
  a slot that was never assigned raises.
\<close>

definition get_logs :: "('pool, 'ctrl) StateLog \<Rightarrow> error + logs" where
  "get_logs log =
     bind (collect sample_timestamp (state_per_trade log)) (\<lambda>times.
       let per_trade = (\<lambda>col.
             if list_ex (\<lambda>state. state col \<noteq> None) (state_per_trade log)
             then Some (SeriesTable
               \<lparr>frame_index = times,
                frame_data = map (\<lambda>state. state col) (state_per_trade log)\<rparr>)
             else None)
       in case state_per_run log of
            None \<Rightarrow> Inl (AttributeError ''state_per_run'')
          | Some params \<Rightarrow> Inr ([''sim_parameters'' \<mapsto> ParamTable params] ++ per_trade))"

text \<open>
  The series of one state field: the frame of the column \<^verbatim>\<open>state_data\<close> is built
  from the records' state dictionaries, and its column for a field name holds each
  record's value of that field.
\<close>

definition field_series :: "frame \<Rightarrow> string \<Rightarrow> pyval option list" where
  "field_series f name =
     map (\<lambda>cell. case cell of Some (PyDict d) \<Rightarrow> map_of d name | _ \<Rightarrow> None) (frame_data f)"



section \<open>The simulated price aggregator (\<^verbatim>\<open>crvusdsim/pool/sim_interface/sim_aggregator.py\<close>)\<close>

text \<open>
  The two attributes the override writes; the other attributes of the parent
  class are the record's extension. A price series is its rows in order, each
  the index entry and the values of the columns. The parent's
  \<^verbatim>\<open>prepare_for_run\<close> is not among the source files and is a parameter, as are
  the two floating-point conversions \<^verbatim>\<open>int(x * 10**18)\<close> and
  \<^verbatim>\<open>int(i.timestamp())\<close>, which raise on values such as NaN or NaT.
\<close>

record SimAggregateStablePrice =
  last_price :: int
  last_timestamp :: int

type_synonym ('i, 'f) prices = "('i \<times> 'f list) list"

text \<open>\<^verbatim>\<open>prices.iloc[0, :].tolist()[0]\<close>\<close>

fun first_price :: "('i, 'f) prices \<Rightarrow> error + 'f" where
  "first_price [] = Inl (IndexError ''single positional indexer is out-of-bounds'')"
| "first_price ((i, []) # rest) = Inl (IndexError ''list index out of range'')"
| "first_price ((i, x # xs) # rest) = Inr x"

text \<open>\<^verbatim>\<open>prices.index[0]\<close>\<close>

fun first_index :: "('i, 'f) prices \<Rightarrow> error + 'i" where
  "first_index [] = Inl (IndexError ''index 0 is out of bounds'')"
| "first_index ((i, row) # rest) = Inr i"

definition prepare_for_run ::
  "('a SimAggregateStablePrice_scheme \<Rightarrow> ('i, 'f) prices \<Rightarrow> bool
      \<Rightarrow> error + 'a SimAggregateStablePrice_scheme)
   \<Rightarrow> ('f \<Rightarrow> error + int) \<Rightarrow> ('i \<Rightarrow> error + int)
   \<Rightarrow> 'a SimAggregateStablePrice_scheme \<Rightarrow> ('i, 'f) prices \<Rightarrow> bool
   \<Rightarrow> error + 'a SimAggregateStablePrice_scheme"
where
  "prepare_for_run super_prepare_for_run int_scaled int_timestamp self prices keep_price =
     bind (super_prepare_for_run self prices keep_price) (\<lambda>self1.
     bind (if \<not> keep_price then
             bind (first_price prices) (\<lambda>x.
             bind (int_scaled x) (\<lambda>initial_price. Inr (self1\<lparr>last_price := initial_price\<rparr>)))
           else Inr self1) (\<lambda>self2.
     bind (first_index prices) (\<lambda>i.
     bind (int_timestamp i) (\<lambda>init_ts. Inr (self2\<lparr>last_timestamp := init_ts\<rparr>)))))"

section \<open>Concrete instances\<close>

text \<open>
  Readers over pools, controllers and parameter objects that are plain numbers,
  a two-trade run, and a two-row price series; the theorems below are
  instantiated at them.
\<close>

definition example_readers :: "(nat, nat, nat) readers" where
  "example_readers =
     \<lparr>get_pool_parameters = (\<lambda>p. PyDict [(''A'', PyInt (int p))]),
      get_controller_parameters = (\<lambda>c. PyDict [(''loan_discount'', PyInt (int c))]),
      get_N_parameters = (\<lambda>n. PyDict [(''N'', PyInt (int n))]),
      get_pool_state = (\<lambda>p. Inr (PyDict [(''active_band'', PyInt (int p))])),
      get_controller_state = (\<lambda>p c. Inr (PyDict [(''n_loans'', PyInt (int c))]))\<rparr>"

definition example_kwargs :: "int \<Rightarrow> pydict" where
  "example_kwargs t =
     [''price_sample'' \<mapsto> PyObj [(''timestamp'', PyInt t)], ''volume'' \<mapsto> PyInt 5]"

definition example_steps :: "(nat \<times> nat \<times> pydict) list" where
  "example_steps = [(1, 2, example_kwargs 100), (4, 2, example_kwargs 200)]"

text \<open>A metric that holds no state of its own: the band series and its number of rows.\<close>

definition example_metric :: "nat metric" where
  "example_metric =
     \<lparr>is_PoolMetric = True,
      metric_pool = None,
      metric_state = PyNone,
      compute = (\<lambda>s p state_logs.
        case state_logs ''state_data'' of
          Some (SeriesTable f) \<Rightarrow>
            Inr ((f, \<lparr>frame_index = [], frame_data = [Some (PyInt (int (length (frame_data f))))]\<rparr>), s)
        | _ \<Rightarrow> Inl (KeyError ''state_data''))\<rparr>"


definition example_frame :: frame where
  "example_frame =
     \<lparr>frame_index = [PyInt 100, PyInt 200],
      frame_data = [Some (PyDict [(''active_band'', PyInt 1)]),
                    Some (PyDict [(''active_band'', PyInt 4)])]\<rparr>"

definition example_super ::
  "SimAggregateStablePrice \<Rightarrow> (int, int) prices \<Rightarrow> bool \<Rightarrow> error + SimAggregateStablePrice"
where
  "example_super self prices keep_price = Inr self"

definition example_int_scaled :: "int \<Rightarrow> error + int" where
  "example_int_scaled x = Inr (x * 1000000000000000000)"

definition example_int_timestamp :: "int \<Rightarrow> error + int" where
  "example_int_timestamp i = Inr i"

definition example_prices :: "(int, int) prices" where
  "example_prices = [(1700000000, [2000]), (1700000600, [1990])]"

section \<open>Basic facts\<close>

lemma bind_Inr [simp]: "bind (Inr x) f = f x"
  by (simp add: bind_def)

lemma bind_Inl [simp]: "bind (Inl e) f = Inl e"
  by (simp add: bind_def)

lemma bind_eq_Inr: "bind m f = Inr y \<longleftrightarrow> (\<exists>x. m = Inr x \<and> f x = Inr y)"
  by (cases m) simp_all

lemma collect_all2:
  "list_all2 (\<lambda>x t. f x = Inr t) xs ts \<Longrightarrow> collect f xs = Inr ts"
  by (induction xs ts rule: list_all2_induct) simp_all

lemma parse_loop_no_args: "parse_loop [] kwargs vp = Inr vp"
  by (induction kwargs arbitrary: vp) auto

text \<open>A keyword never hides the price sample of the call, and every record has state data.\<close>

lemma sample_timestamp_record [simp]:
  "sample_timestamp (log_record s kwargs) = sample_timestamp kwargs"
  by (simp add: sample_timestamp_def log_record_def map_add_def split: option.splits)

lemma log_record_state_data [simp]: "\<exists>y. log_record s kwargs ''state_data'' = Some y"
  by (simp add: log_record_def map_add_def split: option.splits)

text \<open>
  In a recognized mode a call of \<^verbatim>\<open>update\<close> whose state reader returns appends
  one record, made of the state read and the keyword arguments.
\<close>

lemma update_appends:
  assumes "sim_mode log \<in> recognized_modes"
    and "(if sim_mode log = ''pool'' then get_pool_state rd (pool log)
          else get_controller_state rd (pool log) (controller log)) = Inr st"
  shows "update rd log kwargs = Inr (append_record log st kwargs)"
  using assms
  by (auto simp: update_def recognized_modes_def append_record_def split: if_splits)

lemma run_updates_returns:
  assumes "list_all2 (\<lambda>step st.
           (if mode = ''pool'' then get_pool_state rd (fst step)
            else get_controller_state rd (fst step) (fst (snd step))) = Inr st) steps states"
    and "mode \<in> recognized_modes" and "sim_mode log = mode"
  shows "\<exists>log'. run_updates rd log steps = Inr log' \<and>
           state_per_trade log' =
             state_per_trade log @ map2 (\<lambda>st step. log_record st (snd (snd step))) states steps \<and>
           state_per_run log' = state_per_run log \<and> metrics log' = metrics log \<and>
           sim_mode log' = sim_mode log"
  using assms
proof (induction steps states arbitrary: log rule: list_all2_induct)
  case Nil
  then show ?case by simp
next
  case (Cons step steps st states)
  obtain p c kw where step: "step = (p, c, kw)"
    by (cases step) auto
  let ?log0 = "log\<lparr>pool := p, controller := c\<rparr>"
  let ?log1 = "append_record ?log0 st kw"
  have m0: "sim_mode ?log0 \<in> recognized_modes"
    using Cons.prems by simp
  have r0: "(if sim_mode ?log0 = ''pool'' then get_pool_state rd (pool ?log0)
      else get_controller_state rd (pool ?log0) (controller ?log0)) = Inr st"
    using Cons.hyps(1) Cons.prems(2) unfolding step by (auto split: if_splits)
  have u: "update rd ?log0 kw = Inr ?log1"
    by (rule update_appends [OF m0 r0])
  have e: "sim_mode ?log1 = mode"
    using Cons.prems by (simp add: append_record_def)
  from Cons.IH [OF Cons.prems(1) e] obtain log' where
    r: "run_updates rd ?log1 steps = Inr log'"
      "state_per_trade log' =
         state_per_trade ?log1 @ map2 (\<lambda>st step. log_record st (snd (snd step))) states steps"
      "state_per_run log' = state_per_run ?log1" "metrics log' = metrics ?log1"
      "sim_mode log' = sim_mode ?log1"
    by auto
  show ?case
    using r u by (simp add: step append_record_def)
qed

lemma collect_records:
  assumes "list_all2 (\<lambda>step t. sample_timestamp (snd (snd step)) = Inr t) steps ts"
    and "length states = length steps"
  shows "collect sample_timestamp
           (map2 (\<lambda>st step. log_record st (snd (snd step))) states steps) = Inr ts"
proof (rule collect_all2)
  show "list_all2 (\<lambda>x t. sample_timestamp x = Inr t)
          (map2 (\<lambda>st step. log_record st (snd (snd step))) states steps) ts"
    using assms
    by (auto simp: list_all2_conv_all_nth)
qed

text \<open>What a record holds under each key.\<close>

lemma log_record_apply:
  "log_record st kw col =
     (case kw col of Some v \<Rightarrow> Some v
      | None \<Rightarrow> if col = ''state_data'' then Some st else None)"
  by (simp add: log_record_def map_add_def split: option.splits)


text \<open>
  The sibling path of the bare integer: a list of integers under a sweep key of
  the mode is accepted and stored.
\<close>

lemma parse_arguments_int_list:
  "parse_arguments () ''pool'' [(''A'', PyList [PyInt 50, PyInt 100])]
     = Inr ([''A'' \<mapsto> PyList [PyInt 50, PyInt 100]], Some init_y_bands_strategy)"
  by (simp add: parse_arguments_def mode_input_args_def)

section \<open>Finalizing a log with no record\<close>

text \<open>
  Claim C1, as the code has it: for every StateLog constructed with a recognized
  sim_mode on which no \<^verbatim>\<open>update()\<close> call has been made, \<^verbatim>\<open>get_logs()\<close> raises no
  error. It returns the mapping whose only entry is \<^verbatim>\<open>sim_parameters\<close>, the table
  of the parameter snapshot of the mode; there is no per-field series and no
  EmptyRunError.
\<close>

theorem get_logs_empty_run:
  "mode \<in> recognized_modes \<Longrightarrow>
   get_logs (StateLog_init rd p c ms prm mode) =
     Inr [''sim_parameters'' \<mapsto>
            ParamTable (if mode = ''pool'' then get_pool_parameters rd p
               else if mode = ''controller'' then get_controller_parameters rd c
               else get_N_parameters rd prm)]"
  by (auto simp add: get_logs_def StateLog_init_def recognized_modes_def)

theorem get_logs_empty_run_witness:
  "''controller'' \<in> recognized_modes \<and>
   get_logs (StateLog_init example_readers 1 2 [] (3::nat) ''controller'') =
     Inr [''sim_parameters'' \<mapsto> ParamTable (PyDict [(''loan_discount'', PyInt 2)])]"
proof -
  have h: "''controller'' \<in> recognized_modes"
    by (simp add: recognized_modes_def)
  show ?thesis
    using h get_logs_empty_run [OF h, of example_readers 1 2 "[]" "3::nat"]
    by (simp add: example_readers_def)
qed

text \<open>
  The claim as the specification states it fails: on a log constructed in mode
  pool and never updated, \<^verbatim>\<open>get_logs()\<close> returns instead of raising.
\<close>

theorem get_logs_empty_run_returns:
  "\<not> isl (get_logs (StateLog_init example_readers 1 2 [] (3::nat) ''pool''))"
  by (simp add: get_logs_def StateLog_init_def)

section \<open>An unrecognized simulation mode\<close>

text \<open>
  Claim C2, as the code has it: an unrecognized sim_mode is not reported when the
  sweep parameters are parsed. For every sim_mode outside pool, controller and N
  and any keyword arguments, \<^verbatim>\<open>_parse_arguments\<close> returns normally, with empty
  \<^verbatim>\<open>variable_params\<close> and no band strategy, and StateLog construction leaves
  \<^verbatim>\<open>state_per_run\<close> unset. For a recognized sim_mode StateLog construction
  succeeds and sets \<^verbatim>\<open>state_per_run\<close>.
\<close>

theorem unrecognized_sim_mode_accepted:
  "(mode \<notin> recognized_modes \<longrightarrow>
      parse_arguments md mode kwargs = Inr (Map.empty, None) \<and>
      state_per_run (StateLog_init rd p c ms prm mode) = None) \<and>
   (mode \<in> recognized_modes \<longrightarrow>
      state_per_run (StateLog_init rd p c ms prm mode) \<noteq> None)"
  by (simp add: parse_arguments_def mode_input_args_def recognized_modes_def
      parse_loop_no_args StateLog_init_def)

theorem unrecognized_sim_mode_accepted_witness:
  "''bogus'' \<notin> recognized_modes \<and>
   parse_arguments () ''bogus'' [(''A'', PyStr ''x'')] = Inr (Map.empty, None) \<and>
   state_per_run (StateLog_init example_readers 1 2 [] (3::nat) ''bogus'') = None \<and>
   ''N'' \<in> recognized_modes \<and>
   state_per_run (StateLog_init example_readers 1 2 [] (3::nat) ''N'') \<noteq> None"
  using
    unrecognized_sim_mode_accepted
      [of "''bogus''" "()" "[(''A'', PyStr ''x'')]" example_readers 1 2 "[]" "3::nat"]
    unrecognized_sim_mode_accepted
      [of "''N''" "()" "[]" example_readers 1 2 "[]" "3::nat"]
  by (simp add: recognized_modes_def)

text \<open>
  The claim as the specification states it fails: with the mode \<^verbatim>\<open>bogus\<close> and a
  sweep argument that is not even an integer, parsing returns normally.
\<close>

theorem parse_arguments_unrecognized_returns:
  "\<not> isl (parse_arguments () ''bogus'' [(''A'', PyStr ''x'')])"
  by (simp add: parse_arguments_def mode_input_args_def)

section \<open>The record count\<close>

text \<open>The columns that \<^verbatim>\<open>get_logs\<close> reads off the records of a run.\<close>

lemma records_column_other:
  assumes "length states = length steps" and "col \<noteq> ''state_data''"
  shows "map (\<lambda>state. state col)
           (map2 (\<lambda>st step. log_record st (snd (snd step))) states steps) =
         map (\<lambda>step. snd (snd step) col) steps"
  using assms
  by (induction states steps rule: list_induct2)
    (simp_all add: log_record_apply split: option.splits)

lemma records_ex_other:
  assumes "length states = length steps" and "col \<noteq> ''state_data''"
  shows "list_ex (\<lambda>state. state col \<noteq> None)
           (map2 (\<lambda>st step. log_record st (snd (snd step))) states steps) =
         list_ex (\<lambda>step. snd (snd step) col \<noteq> None) steps"
  using assms
  by (induction states steps rule: list_induct2)
    (simp_all add: log_record_apply split: option.splits)

lemma records_ex_state:
  assumes "length states = length steps" and "steps \<noteq> []"
  shows "list_ex (\<lambda>state. state ''state_data'' \<noteq> None)
           (map2 (\<lambda>st step. log_record st (snd (snd step))) states steps)"
  using assms
  by (cases states; cases steps) simp_all

text \<open>
  Claim C6: for every StateLog with a recognized sim_mode, after exactly N
  \<^verbatim>\<open>update()\<close> calls since construction (N at least 1), each made on some state
  of the pool and the controller that the mode's reader can read and each
  supplying a price sample that carries a timestamp, the calls return and
  \<^verbatim>\<open>get_logs()\<close> returns. Its table \<^verbatim>\<open>state_data\<close> has as index the timestamps of
  the calls' price samples, in order, and exactly N rows: row k is the state read
  at call k (or the keyword \<^verbatim>\<open>state_data\<close> of that call, which replaces it), so the
  series of every state field lists that field's value at each call. Every other
  key that some call supplied has a series with the same index and that key's
  value at each call; \<^verbatim>\<open>sim_parameters\<close> is the parameter table unless it is such
  a key; there is no other entry.
\<close>

theorem get_logs_record_count:
  assumes "mode \<in> recognized_modes"
    and "steps \<noteq> []"
    and "list_all2 (\<lambda>(p, c, kw) st.
           (if mode = ''pool'' then get_pool_state rd p
            else get_controller_state rd p c) = Inr st) steps states"
    and "list_all2 (\<lambda>(p, c, kw) t. sample_timestamp kw = Inr t) steps ts"
  shows "\<exists>log logs f.
           run_updates rd (StateLog_init rd p0 c0 ms prm mode) steps = Inr log \<and>
           get_logs log = Inr logs \<and>
           logs ''state_data'' = Some (SeriesTable f) \<and>
           frame_index f = ts \<and>
           length (frame_data f) = length steps \<and>
           frame_data f =
             map2 (\<lambda>st (p, c, kw). Some (case kw ''state_data'' of None \<Rightarrow> st | Some v \<Rightarrow> v))
               states steps \<and>
           (\<forall>name. field_series f name =
              map2 (\<lambda>st (p, c, kw).
                     case (case kw ''state_data'' of None \<Rightarrow> st | Some v \<Rightarrow> v) of
                       PyDict d \<Rightarrow> map_of d name
                     | _ \<Rightarrow> None)
                states steps) \<and>
           (\<forall>col. col \<noteq> ''state_data'' \<longrightarrow>
              logs col =
                (if list_ex (\<lambda>(p, c, kw). kw col \<noteq> None) steps
                 then Some (SeriesTable
                   \<lparr>frame_index = ts, frame_data = map (\<lambda>(p, c, kw). kw col) steps\<rparr>)
                 else if col = ''sim_parameters''
                 then Some (ParamTable
                   (if mode = ''pool'' then get_pool_parameters rd p0
                    else if mode = ''controller'' then get_controller_parameters rd c0
                    else get_N_parameters rd prm))
                 else None))"
proof -
  let ?log0 = "StateLog_init rd p0 c0 ms prm mode"
  let ?recs = "map2 (\<lambda>st step. log_record st (snd (snd step))) states steps"
  let ?params = "if mode = ''pool'' then get_pool_parameters rd p0
     else if mode = ''controller'' then get_controller_parameters rd c0
     else get_N_parameters rd prm"
  have m: "sim_mode ?log0 = mode"
    by (simp add: StateLog_init_def)
  have rd: "list_all2 (\<lambda>step st.
      (if mode = ''pool'' then get_pool_state rd (fst step)
       else get_controller_state rd (fst step) (fst (snd step))) = Inr st) steps states"
    using assms(3) by (simp add: case_prod_unfold)
  have tm: "list_all2 (\<lambda>step t. sample_timestamp (snd (snd step)) = Inr t) steps ts"
    using assms(4) by (simp add: case_prod_unfold)
  have len: "length states = length steps"
    using assms(3) by (simp add: list_all2_lengthD)
  from run_updates_returns [OF rd assms(1) m] obtain log where
    run: "run_updates rd ?log0 steps = Inr log"
    and recs: "state_per_trade log = ?recs"
    and par: "state_per_run log = Some ?params"
    using assms(1) by (auto simp: StateLog_init_def recognized_modes_def)
  have times: "collect sample_timestamp ?recs = Inr ts"
    by (rule collect_records [OF tm len])
  define logs where "logs = [''sim_parameters'' \<mapsto> ParamTable ?params] ++
      (\<lambda>col. if list_ex (\<lambda>state. state col \<noteq> None) ?recs
         then Some (SeriesTable
           \<lparr>frame_index = ts, frame_data = map (\<lambda>state. state col) ?recs\<rparr>)
         else None)"
  define f where "f = \<lparr>frame_index = ts, frame_data = map (\<lambda>state. state ''state_data'') ?recs\<rparr>"
  have g: "get_logs log = Inr logs"
    unfolding get_logs_def recs logs_def by (simp add: times par)
  have sd: "logs ''state_data'' = Some (SeriesTable f)"
    using records_ex_state [OF len assms(2)] by (simp add: logs_def f_def map_add_def)
  have fd: "frame_data f =
      map2 (\<lambda>st (p, c, kw). Some (case kw ''state_data'' of None \<Rightarrow> st | Some v \<Rightarrow> v))
        states steps"
    unfolding f_def
    by (simp add: case_prod_unfold log_record_apply split: option.splits)
  have fs: "field_series f name =
      map2 (\<lambda>st (p, c, kw).
             case (case kw ''state_data'' of None \<Rightarrow> st | Some v \<Rightarrow> v) of
               PyDict d \<Rightarrow> map_of d name
             | _ \<Rightarrow> None)
        states steps" for name
    unfolding field_series_def fd by (simp add: case_prod_unfold)
  have other: "logs col =
      (if list_ex (\<lambda>(p, c, kw). kw col \<noteq> None) steps
       then Some (SeriesTable
         \<lparr>frame_index = ts, frame_data = map (\<lambda>(p, c, kw). kw col) steps\<rparr>)
       else if col = ''sim_parameters'' then Some (ParamTable ?params)
       else None)" if "col \<noteq> ''state_data''" for col
    using records_ex_other [OF len that] records_column_other [OF len that]
    by (simp add: logs_def map_add_def case_prod_unfold)
  have "frame_index f = ts" and "length (frame_data f) = length steps"
    using len by (simp_all add: f_def)
  with run g sd fd fs other show ?thesis
    by blast
qed

theorem get_logs_record_count_witness:
  "''pool'' \<in> recognized_modes \<and>
   example_steps \<noteq> [] \<and>
   list_all2 (\<lambda>(p, c, kw) st.
       (if ''pool'' = ''pool'' then get_pool_state example_readers p
        else get_controller_state example_readers p c) = Inr st)
     example_steps
     [PyDict [(''active_band'', PyInt 1)], PyDict [(''active_band'', PyInt 4)]] \<and>
   list_all2 (\<lambda>(p, c, kw) t. sample_timestamp kw = Inr t) example_steps
     [PyInt 100, PyInt 200] \<and>
   (\<exists>log logs f.
      run_updates example_readers
        (StateLog_init example_readers 1 2 [example_metric] (3::nat) ''pool'') example_steps
        = Inr log \<and>
      get_logs log = Inr logs \<and>
      logs ''state_data'' = Some (SeriesTable f) \<and>
      f = example_frame \<and>
      field_series f ''active_band'' = [Some (PyInt 1), Some (PyInt 4)] \<and>
      logs ''volume'' = Some (SeriesTable
        \<lparr>frame_index = [PyInt 100, PyInt 200], frame_data = [Some (PyInt 5), Some (PyInt 5)]\<rparr>) \<and>
      logs ''sim_parameters'' = Some (ParamTable (PyDict [(''A'', PyInt 1)])) \<and>
      logs ''fee'' = None)"
proof -
  let ?states = "[PyDict [(''active_band'', PyInt 1)], PyDict [(''active_band'', PyInt 4)]]"
  have h1: "''pool'' \<in> recognized_modes"
    by (simp add: recognized_modes_def)
  have h2: "example_steps \<noteq> []"
    by (simp add: example_steps_def)
  have h3: "list_all2 (\<lambda>(p, c, kw) st.
       (if ''pool'' = ''pool'' then get_pool_state example_readers p
        else get_controller_state example_readers p c) = Inr st) example_steps ?states"
    by (simp add: example_steps_def example_readers_def)
  have h4: "list_all2 (\<lambda>(p, c, kw) t. sample_timestamp kw = Inr t) example_steps
      [PyInt 100, PyInt 200]"
    by (simp add: example_steps_def sample_timestamp_def example_kwargs_def)
  from get_logs_record_count
    [OF h1 h2 h3 h4, of 1 2 "[example_metric]" "3::nat"]
  obtain log logs f where
    r: "run_updates example_readers
          (StateLog_init example_readers 1 2 [example_metric] (3::nat) ''pool'') example_steps
          = Inr log"
      "get_logs log = Inr logs" "logs ''state_data'' = Some (SeriesTable f)"
    and ix: "frame_index f = [PyInt 100, PyInt 200]"
    and fd: "frame_data f =
       map2 (\<lambda>st (p, c, kw). Some (case kw ''state_data'' of None \<Rightarrow> st | Some v \<Rightarrow> v))
         ?states example_steps"
    and fs: "\<And>name. field_series f name =
       map2 (\<lambda>st (p, c, kw).
              case (case kw ''state_data'' of None \<Rightarrow> st | Some v \<Rightarrow> v) of
                PyDict d \<Rightarrow> map_of d name
              | _ \<Rightarrow> None)
         ?states example_steps"
    and other: "\<And>col. col \<noteq> ''state_data'' \<Longrightarrow>
       logs col =
         (if list_ex (\<lambda>(p, c, kw). kw col \<noteq> None) example_steps
          then Some (SeriesTable
            \<lparr>frame_index = [PyInt 100, PyInt 200],
             frame_data = map (\<lambda>(p, c, kw). kw col) example_steps\<rparr>)
          else if col = ''sim_parameters''
          then Some (ParamTable
            (if ''pool'' = ''pool'' then get_pool_parameters example_readers 1
             else if ''pool'' = ''controller'' then get_controller_parameters example_readers 2
             else get_N_parameters example_readers 3))
          else None)"
    by blast
  have f: "f = example_frame"
    using ix fd by (cases f) (simp add: example_frame_def example_steps_def example_kwargs_def)
  have a: "field_series f ''active_band'' = [Some (PyInt 1), Some (PyInt 4)]"
    using fs [of "''active_band''"] by (simp add: example_steps_def example_kwargs_def)
  have v: "logs ''volume'' = Some (SeriesTable
      \<lparr>frame_index = [PyInt 100, PyInt 200], frame_data = [Some (PyInt 5), Some (PyInt 5)]\<rparr>)"
    using other [of "''volume''"] by (simp add: example_steps_def example_kwargs_def)
  have sp: "logs ''sim_parameters'' = Some (ParamTable (PyDict [(''A'', PyInt 1)]))"
    using other [of "''sim_parameters''"]
    by (simp add: example_steps_def example_kwargs_def example_readers_def)
  have fee: "logs ''fee'' = None"
    using other [of "''fee''"] by (simp add: example_steps_def example_kwargs_def)
  show ?thesis
    using h1 h2 h3 h4 r f a v sp fee by blast
qed

section \<open>Finalizing twice\<close>



section \<open>A bare integer as sweep parameter\<close>

text \<open>
  Claim C8 says that a sweep parameter is accepted when it is an integer or an
  iterable of integers. On the call \<^verbatim>\<open>_parse_arguments(md, "pool", A=100)\<close> the
  code raises: the integer is iterated before it is tested, and the exception is
  Python's \<^verbatim>\<open>TypeError\<close> for a value that is not iterable.
\<close>

theorem parse_arguments_bare_int:
  "parse_arguments () ''pool'' [(''A'', PyInt 100)]
     = Inl (TypeError ''int object is not iterable'')"
  by (simp add: parse_arguments_def mode_input_args_def)

section \<open>Preparing the price aggregator\<close>

text \<open>
  Claim C9: for every call \<^verbatim>\<open>prepare_for_run(prices, keep_price)\<close> on a price series
  with a first row, where the parent's method returns and the conversions
  succeed, the call returns; \<^verbatim>\<open>last_timestamp\<close> is the integer timestamp of the
  first index entry in all cases; \<^verbatim>\<open>last_price\<close> is \<^verbatim>\<open>int(first price * 10**18)\<close>
  when \<^verbatim>\<open>keep_price\<close> is false, and with \<^verbatim>\<open>keep_price\<close> true the override does not
  write it: it is as the parent's method left it. No other attribute is written.
\<close>

theorem prepare_for_run_sets:
  assumes "super_prepare self prices keep_price = Inr self1"
    and "first_index prices = Inr i" and "int_timestamp i = Inr init_ts"
    and "\<not> keep_price \<longrightarrow> bind (first_price prices) int_scaled = Inr initial_price"
  shows "prepare_for_run super_prepare int_scaled int_timestamp self prices keep_price =
           Inr (self1\<lparr>last_price := (if keep_price then last_price self1 else initial_price),
                      last_timestamp := init_ts\<rparr>)"
  using assms by (auto simp: prepare_for_run_def bind_eq_Inr)

theorem prepare_for_run_sets_witness:
  "example_super \<lparr>last_price = 5, last_timestamp = 0\<rparr> example_prices False
     = Inr \<lparr>last_price = 5, last_timestamp = 0\<rparr> \<and>
   first_index example_prices = Inr 1700000000 \<and>
   example_int_timestamp 1700000000 = Inr 1700000000 \<and>
   bind (first_price example_prices) example_int_scaled = Inr 2000000000000000000000 \<and>
   prepare_for_run example_super example_int_scaled example_int_timestamp
     \<lparr>last_price = 5, last_timestamp = 0\<rparr> example_prices False
     = Inr \<lparr>last_price = 2000000000000000000000, last_timestamp = 1700000000\<rparr> \<and>
   prepare_for_run example_super example_int_scaled example_int_timestamp
     \<lparr>last_price = 5, last_timestamp = 0\<rparr> example_prices True
     = Inr \<lparr>last_price = 5, last_timestamp = 1700000000\<rparr>"
proof -
  let ?self = "\<lparr>last_price = 5, last_timestamp = 0\<rparr>"
  have s: "example_super ?self example_prices k = Inr ?self" for k
    by (simp add: example_super_def)
  have i: "first_index example_prices = Inr 1700000000"
    by (simp add: example_prices_def)
  have t: "example_int_timestamp 1700000000 = Inr 1700000000"
    by (simp add: example_int_timestamp_def)
  have x: "bind (first_price example_prices) example_int_scaled = Inr 2000000000000000000000"
    by (simp add: example_prices_def example_int_scaled_def)
  have x1: "\<not> False \<longrightarrow>
      bind (first_price example_prices) example_int_scaled = Inr 2000000000000000000000"
    using x by simp
  have x2: "\<not> True \<longrightarrow> bind (first_price example_prices) example_int_scaled = Inr 0"
    by simp
  show ?thesis
    using s [of False] i t x
      prepare_for_run_sets
        [where super_prepare = example_super and keep_price = False
           and int_timestamp = example_int_timestamp and int_scaled = example_int_scaled,
         OF s [of False] i t x1]
      prepare_for_run_sets
        [where super_prepare = example_super and keep_price = True
           and int_timestamp = example_int_timestamp and int_scaled = example_int_scaled,
         OF s [of True] i t x2]
    by simp
qed

section \<open>Updating a log of an unrecognized mode\<close>

text \<open>
  Claim C10: for every StateLog whose sim_mode is outside pool, controller and N,
  every call \<^verbatim>\<open>update(**kwargs)\<close> raises no error and appends no record: the log,
  and with it the accumulated record sequence, is unchanged, whatever the state
  readers would do.
\<close>

theorem update_unrecognized_noop:
  "sim_mode log \<notin> recognized_modes \<Longrightarrow> update rd log kwargs = Inr log"
  by (simp add: update_def recognized_modes_def)

theorem update_unrecognized_noop_witness:
  "sim_mode (StateLog_init example_readers 1 2 [] (3::nat) ''bogus'') \<notin> recognized_modes \<and>
   update example_readers (StateLog_init example_readers 1 2 [] (3::nat) ''bogus'')
     (example_kwargs 100)
     = Inr (StateLog_init example_readers 1 2 [] (3::nat) ''bogus'')"
proof -
  have h: "sim_mode (StateLog_init example_readers 1 2 [] (3::nat) ''bogus'')
      \<notin> recognized_modes"
    by (simp add: StateLog_init_def recognized_modes_def)
  show ?thesis
    using h update_unrecognized_noop [OF h, of example_readers "example_kwargs 100"]
    by simp
qed

end
